theory Spec2Isabelle
  imports Complex_Main "HOL-Library.Char_ord" "HOL-Library.List_Lexorder"
begin

section \<open>Python values and exceptions\<close>

text \<open>
  The module \<^verbatim>\<open>iib/workers/tasks/utils.py\<close> is dynamically typed: the values that flow
  through it are strings, \<^verbatim>\<open>None\<close>, numbers, lists and dictionaries with string keys
  (parsed JSON documents and request parameters). They are embedded as one datatype.
  A \<^verbatim>\<open>str\<close> is embedded as the list of its UTF-8 bytes, so that
  \<^verbatim>\<open>s.encode('utf-8')\<close> is the identity. A dictionary is an association list in
  insertion order with pairwise distinct keys; a finite float is its exact rational value.
\<close>

datatype pyval =
    PyNone
  | PyBool bool
  | PyInt int
  | PyFloat rat
  | PyStr string
  | PyList "pyval list"
  | PyDict "(string \<times> pyval) list"

text \<open>
  Every \<^verbatim>\<open>raise\<close> of the module and every exception of the built-ins it calls is a
  value. \<^verbatim>\<open>IIBError\<close> is the module's own error kind and carries its message.
\<close>

datatype exn =
    IIBError string
  | ValueError
  | AttributeError
  | KeyError
  | IndexError
  | TypeError
  | JSONDecodeError
  | FileNotFoundError
  | IsADirectoryError
  | NotADirectoryError
  | FileExistsError
  | UnicodeDecodeError
  | OtherException string

fun is_IIBError :: "exn \<Rightarrow> bool" where
  "is_IIBError (IIBError m) = True"
| "is_IIBError e = False"

text \<open>Truth value testing (\<^verbatim>\<open>not x\<close>, \<^verbatim>\<open>x or y\<close>, \<^verbatim>\<open>if x\<close>).\<close>

fun truthy :: "pyval \<Rightarrow> bool" where
  "truthy PyNone = False"
| "truthy (PyBool b) = b"
| "truthy (PyInt i) = (i \<noteq> 0)"
| "truthy (PyFloat r) = (r \<noteq> 0)"
| "truthy (PyStr s) = (s \<noteq> [])"
| "truthy (PyList xs) = (xs \<noteq> [])"
| "truthy (PyDict kvs) = (kvs \<noteq> [])"

text \<open>Strings among the values, and the text of a value that is a string.\<close>

fun is_str :: "pyval \<Rightarrow> bool" where
  "is_str (PyStr s) = True"
| "is_str v = False"

fun the_str :: "pyval \<Rightarrow> string" where
  "the_str (PyStr s) = s"
| "the_str v = []"

text \<open>\<^verbatim>\<open>v == n\<close> for an integer literal \<^verbatim>\<open>n\<close>: numbers compare by value, \<^verbatim>\<open>True\<close> is 1.\<close>

fun py_eq_int :: "pyval \<Rightarrow> int \<Rightarrow> bool" where
  "py_eq_int (PyInt i) n = (i = n)"
| "py_eq_int (PyBool b) n = ((if b then 1 else 0) = n)"
| "py_eq_int (PyFloat r) n = (r = of_int n)"
| "py_eq_int v n = False"

text \<open>\<^verbatim>\<open>xs.index(v)\<close>: the first position of \<^verbatim>\<open>v\<close>, \<^verbatim>\<open>ValueError\<close> when there is none.\<close>

fun list_index :: "'a list \<Rightarrow> 'a \<Rightarrow> exn + nat" where
  "list_index [] v = Inl ValueError"
| "list_index (x # xs) v =
     (if x = v then Inr 0
      else (case list_index xs v of Inl e \<Rightarrow> Inl e | Inr i \<Rightarrow> Inr (Suc i)))"

section \<open>Distribution scope validation\<close>

definition scopes :: "string list" where
  "scopes = [''dev'', ''stage'', ''prod'']"

text \<open>
  \<^verbatim>\<open>_validate_distribution_scope(resolved_distribution_scope, distribution_scope)\<close>.
  The elements of \<^verbatim>\<open>scopes\<close> are strings, so \<^verbatim>\<open>scopes.index(v)\<close> finds only a string:
  both scopes are strings where the message is made. The left operand of the comparison
  is evaluated first.
\<close>

definition validate_distribution_scope :: "pyval \<Rightarrow> pyval \<Rightarrow> exn + pyval" where
  "validate_distribution_scope resolved_distribution_scope distribution_scope =
     (if \<not> truthy distribution_scope then Inr resolved_distribution_scope
      else (case list_index (map PyStr scopes) distribution_scope of
              Inl e \<Rightarrow> Inl e
            | Inr i \<Rightarrow>
               (case list_index (map PyStr scopes) resolved_distribution_scope of
                  Inl e \<Rightarrow> Inl e
                | Inr j \<Rightarrow>
                   (if i > j
                    then Inl (IIBError
                           (''Cannot set \"distribution_scope\" to ''
                            @ the_str distribution_scope
                            @ '' because from index is already set to ''
                            @ the_str resolved_distribution_scope))
                    else Inr distribution_scope))))"

text \<open>The ranking the specification gives in words: dev < stage < prod.\<close>

definition spec_rank :: "string \<Rightarrow> nat" where
  "spec_rank s = (if s = ''dev'' then 0 else if s = ''stage'' then 1 else 2)"

section \<open>Request configuration\<close>

text \<open>
  \<^verbatim>\<open>RequestConfig\<close> and its two subclasses are slotted classes: an instance is its class
  and one value for each slot of that class.
\<close>

datatype config_class = RequestConfig | RequestConfigAddRm | RequestConfigMerge

definition RequestConfig_attrs :: "string list" where
  "RequestConfig_attrs = [''_binary_image'', ''distribution_scope'', ''binary_image_config'']"

fun slots :: "config_class \<Rightarrow> string list" where
  "slots RequestConfig = RequestConfig_attrs"
| "slots RequestConfigAddRm = RequestConfig_attrs @
     [''overwrite_from_index_token'', ''from_index'', ''add_arches'', ''bundles'', ''operators'']"
| "slots RequestConfigMerge = RequestConfig_attrs @
     [''source_from_index'', ''target_index'', ''overwrite_target_index_token'']"

record request_config =
  cls :: config_class
  attrs :: "string \<Rightarrow> pyval"

definition hasattr :: "request_config \<Rightarrow> string \<Rightarrow> bool" where
  "hasattr self x = (x \<in> set (slots (cls self)))"

definition getattr :: "request_config \<Rightarrow> string \<Rightarrow> exn + pyval" where
  "getattr self x = (if hasattr self x then Inr (attrs self x) else Inl AttributeError)"

definition setattr :: "request_config \<Rightarrow> string \<Rightarrow> pyval \<Rightarrow> exn + request_config" where
  "setattr self x v =
     (if hasattr self x then Inr (self\<lparr>attrs := (attrs self)(x := v)\<rparr>) else Inl AttributeError)"

fun set_kwargs :: "request_config \<Rightarrow> (string \<times> pyval) list \<Rightarrow> exn + request_config" where
  "set_kwargs self [] = Inr self"
| "set_kwargs self ((key, val) # kwargs) =
     (case setattr self key val of Inl e \<Rightarrow> Inl e | Inr self' \<Rightarrow> set_kwargs self' kwargs)"

text \<open>\<^verbatim>\<open>__init__(self, **kwargs)\<close>: every slot is set to \<^verbatim>\<open>None\<close>, then the keywords.\<close>

definition init_config :: "config_class \<Rightarrow> (string \<times> pyval) list \<Rightarrow> exn + request_config" where
  "init_config c kwargs = set_kwargs \<lparr>cls = c, attrs = (\<lambda>x. PyNone)\<rparr> kwargs"

text \<open>
  \<^verbatim>\<open>__eq__(self, other)\<close>. Both list comprehensions of the source read
  \<^verbatim>\<open>getattr(self, x)\<close>; the comparison of the two lists is the comparison of a list
  with a list of the very same objects.
\<close>

definition config_eq :: "request_config \<Rightarrow> request_config \<Rightarrow> bool" where
  "config_eq self other =
     (if cls self = cls other
         \<and> map (getattr self) (slots (cls self)) = map (getattr self) (slots (cls self))
      then True else False)"

section \<open>Computations with state and exceptions\<close>

text \<open>
  A computation takes the state and returns an exception or a value, with the state it
  leaves behind. An exception keeps the state reached when it was raised.
\<close>

type_synonym ('s, 'a) prog = "'s \<Rightarrow> (exn + 'a) \<times> 's"

definition ret :: "'a \<Rightarrow> ('s, 'a) prog" where
  "ret v s = (Inr v, s)"

definition raise :: "exn \<Rightarrow> ('s, 'a) prog" where
  "raise e s = (Inl e, s)"

definition lift :: "exn + 'a \<Rightarrow> ('s, 'a) prog" where
  "lift r s = (r, s)"

definition and_then :: "('s, 'a) prog \<Rightarrow> ('a \<Rightarrow> ('s, 'b) prog) \<Rightarrow> ('s, 'b) prog" where
  "and_then m k s = (case m s of (Inl e, s') \<Rightarrow> (Inl e, s') | (Inr v, s') \<Rightarrow> k v s')"

section \<open>Built-in operations on Python values\<close>

text \<open>\<^verbatim>\<open>d.get(key, default)\<close>; only a dictionary has the method.\<close>

fun py_get :: "pyval \<Rightarrow> string \<Rightarrow> pyval \<Rightarrow> exn + pyval" where
  "py_get (PyDict kvs) key dflt =
     Inr (case map_of kvs key of None \<Rightarrow> dflt | Some v \<Rightarrow> v)"
| "py_get v key dflt = Inl AttributeError"

text \<open>\<^verbatim>\<open>v[key]\<close> for a string key.\<close>

fun py_item :: "pyval \<Rightarrow> string \<Rightarrow> exn + pyval" where
  "py_item (PyDict kvs) key = (case map_of kvs key of None \<Rightarrow> Inl KeyError | Some v \<Rightarrow> Inr v)"
| "py_item v key = Inl TypeError"

text \<open>
  \<^verbatim>\<open>v[0]\<close>. The first character of a string is the first UTF-8 sequence of its bytes;
  no key of a dictionary is the integer 0.
\<close>

definition utf8_length :: "char \<Rightarrow> nat" where
  "utf8_length c =
     (let b = of_char c :: nat
      in if b < 192 then 1 else if b < 224 then 2 else if b < 240 then 3 else 4)"

fun py_first :: "pyval \<Rightarrow> exn + pyval" where
  "py_first (PyList xs) = (case xs of [] \<Rightarrow> Inl IndexError | x # _ \<Rightarrow> Inr x)"
| "py_first (PyStr s) =
     (case s of [] \<Rightarrow> Inl IndexError | c # _ \<Rightarrow> Inr (PyStr (take (utf8_length c) s)))"
| "py_first (PyDict kvs) = Inl KeyError"
| "py_first v = Inl TypeError"

text \<open>\<^verbatim>\<open>str(i)\<close> for an integer: its decimal digits, after a minus sign when negative.\<close>

definition digit_char :: "nat \<Rightarrow> char" where
  "digit_char d = char_of (of_char CHR ''0'' + d)"

fun string_of_nat :: "nat \<Rightarrow> string" where
  "string_of_nat n =
     (if n div 10 = 0 then [digit_char n]
      else string_of_nat (n div 10) @ [digit_char (n mod 10)])"

definition string_of_int :: "int \<Rightarrow> string" where
  "string_of_int i = (if i < 0 then CHR ''-'' # string_of_nat (nat (- i)) else string_of_nat (nat i))"

fun join :: "string \<Rightarrow> string list \<Rightarrow> string" where
  "join sep [] = []"
| "join sep [x] = x"
| "join sep (x # y # ys) = x @ sep @ join sep (y # ys)"

definition startswith :: "string \<Rightarrow> string \<Rightarrow> bool" where
  "startswith s p = (take (length p) s = p)"

text \<open>\<^verbatim>\<open>s.rstrip(".")\<close>\<close>

definition rstrip_dots :: "string \<Rightarrow> string" where
  "rstrip_dots s = rev (dropWhile (\<lambda>c. c = CHR ''.'') (rev s))"

section \<open>The environment of the module\<close>

text \<open>
  The files of a worker: a path leads to a regular file with its content, to a symbolic
  link with its target, or to a directory. Paths are absolute and normalised.
\<close>

datatype node = File string | Symlink string | Directory

record 'w state =
  fs :: "string \<Rightarrow> node option"
  world :: 'w

record completed_process =
  returncode :: int
  stdout :: string
  stderr :: string

record skopeo_call =
  call_args :: "string list"
  return_json :: bool
  require_media_type :: bool

text \<open>
  What the module imports: the worker configuration, the standard library, the image
  name parser and the cache decorator of \<^verbatim>\<open>iib.workers.dogpile_cache\<close>. A child process
  works on the whole state: it reads the Docker configuration and talks to registries;
  what it writes to its two pipes are bytes. \<^verbatim>\<open>other_decoding\<close> is the decoding of these
  bytes under keyword parameters other than the ones \<^verbatim>\<open>run_cmd\<close> sets by default.
  \<^verbatim>\<open>py_repr\<close> is \<^verbatim>\<open>str()\<close> on floats, lists and dictionaries.
\<close>

record 'w env =
  iib_total_attempts :: int
  iib_skopeo_timeout :: string
  iib_docker_config_template :: string
  home :: string
  child_process ::
    "string list \<Rightarrow> (string \<times> pyval) list \<Rightarrow> ('w state, completed_process) prog"
  other_decoding :: "(string \<times> pyval) list \<Rightarrow> string \<Rightarrow> exn + string"
  splitlines :: "string \<Rightarrow> string list"
  json_loads :: "string \<Rightarrow> exn + pyval"
  json_dumps :: "pyval \<Rightarrow> string"
  sha256_hexdigest :: "string \<Rightarrow> string"
  b64encode :: "string \<Rightarrow> string"
  image_registry :: "string \<Rightarrow> string"
  py_repr :: "pyval \<Rightarrow> string"
  dogpile_cache ::
    "(skopeo_call \<Rightarrow> ('w state, pyval) prog) \<Rightarrow> skopeo_call \<Rightarrow> ('w state, pyval) prog"

text \<open>The text an f-string puts in for a value.\<close>

definition py_str :: "'w env \<Rightarrow> pyval \<Rightarrow> string" where
  "py_str env v =
     (case v of
        PyStr s \<Rightarrow> s
      | PyNone \<Rightarrow> ''None''
      | PyBool b \<Rightarrow> (if b then ''True'' else ''False'')
      | PyInt i \<Rightarrow> string_of_int i
      | _ \<Rightarrow> py_repr env v)"

section \<open>Running commands\<close>

text \<open>\<^verbatim>\<open>params.setdefault(key, value)\<close>\<close>

definition setdefault :: "(string \<times> pyval) list \<Rightarrow> string \<Rightarrow> pyval \<Rightarrow> (string \<times> pyval) list" where
  "setdefault d key v = (case map_of d key of None \<Rightarrow> d @ [(key, v)] | Some _ \<Rightarrow> d)"

text \<open>
  \<^verbatim>\<open>re.match(r'^(?:Error: )(.+)$', msg)\<close> and its first group: the dot does not match a
  newline, and the end anchor also matches just before one last newline.
\<close>

definition match_error :: "string \<Rightarrow> string option" where
  "match_error msg =
     (if startswith msg ''Error: ''
      then (let rest = drop 7 msg;
                group = takeWhile (\<lambda>c. c \<noteq> CHR 0x0A) rest;
                after = dropWhile (\<lambda>c. c \<noteq> CHR 0x0A) rest
            in if group \<noteq> [] \<and> (after = [] \<or> after = [CHR 0x0A]) then Some group else None)
      else None)"

fun first_error :: "string list \<Rightarrow> string option" where
  "first_error [] = None"
| "first_error (msg # msgs) =
     (case match_error msg of Some m \<Rightarrow> Some m | None \<Rightarrow> first_error msgs)"

text \<open>
  The bytes that are well-formed UTF-8: no overlong form, no surrogate, nothing above
  U+10FFFF.
\<close>

definition continuation :: "nat \<Rightarrow> bool" where
  "continuation b = (128 \<le> b \<and> b \<le> 191)"

fun utf8_valid :: "nat list \<Rightarrow> bool" where
  "utf8_valid [] = True"
| "utf8_valid (a # rest) =
     (if a < 128 then utf8_valid rest
      else if 194 \<le> a \<and> a \<le> 223
      then (case rest of
              b # rest' \<Rightarrow> continuation b \<and> utf8_valid rest'
            | _ \<Rightarrow> False)
      else if 224 \<le> a \<and> a \<le> 239
      then (case rest of
              b # c # rest' \<Rightarrow>
                (if a = 224 then 160 \<le> b \<and> b \<le> 191
                 else if a = 237 then 128 \<le> b \<and> b \<le> 159
                 else continuation b)
                \<and> continuation c \<and> utf8_valid rest'
            | _ \<Rightarrow> False)
      else if 240 \<le> a \<and> a \<le> 244
      then (case rest of
              b # c # d # rest' \<Rightarrow>
                (if a = 240 then 144 \<le> b \<and> b \<le> 191
                 else if a = 244 then 128 \<le> b \<and> b \<le> 143
                 else continuation b)
                \<and> continuation c \<and> continuation d \<and> utf8_valid rest'
            | _ \<Rightarrow> False)
      else False)"

text \<open>
  Universal newlines: a carriage return with a line feed after it, and a carriage return
  alone, are read as one line feed.
\<close>

fun translate_newlines :: "string \<Rightarrow> string" where
  "translate_newlines [] = []"
| "translate_newlines [c] = [if c = CHR 0x0D then CHR 0x0A else c]"
| "translate_newlines (c # d # cs) =
     (if c = CHR 0x0D
      then (if d = CHR 0x0A then CHR 0x0A # translate_newlines cs
            else CHR 0x0A # translate_newlines (d # cs))
      else c # translate_newlines (d # cs))"

text \<open>
  The text that \<^verbatim>\<open>subprocess.run\<close> makes of the bytes of a pipe. With
  \<^verbatim>\<open>encoding='utf-8'\<close> and strict error handling the bytes are decoded, which fails on
  bytes that are not UTF-8, and the newlines are translated; a decoded text is the list
  of its UTF-8 bytes again.
\<close>

definition decode_output :: "'w env \<Rightarrow> (string \<times> pyval) list \<Rightarrow> string \<Rightarrow> exn + string" where
  "decode_output env params bytes =
     (if map_of params ''encoding'' = Some (PyStr ''utf-8'')
         \<and> (case map_of params ''errors'' of
                None \<Rightarrow> True
              | Some v \<Rightarrow> v = PyNone \<or> v = PyStr ''strict'')
      then (if utf8_valid (map of_char bytes) then Inr (translate_newlines bytes)
            else Inl UnicodeDecodeError)
      else other_decoding env params bytes)"

text \<open>
  \<^verbatim>\<open>subprocess.run(cmd, **params)\<close>: the child process runs, then the bytes of its
  standard output and of its standard error are decoded.
\<close>

definition subprocess_run ::
  "'w env \<Rightarrow> string list \<Rightarrow> (string \<times> pyval) list \<Rightarrow> ('w state, completed_process) prog" where
  "subprocess_run env cmd params =
     and_then (child_process env cmd params) (\<lambda>finished.
     and_then (lift (decode_output env params (stdout finished))) (\<lambda>out.
     and_then (lift (decode_output env params (stderr finished))) (\<lambda>err.
       ret \<lparr>returncode = returncode finished, stdout = out, stderr = err\<rparr>)))"

text \<open>\<^verbatim>\<open>run_cmd(cmd, params=None, exc_msg=None)\<close>; \<^verbatim>\<open>subprocess.PIPE\<close> is -1.\<close>

definition run_cmd ::
  "'w env \<Rightarrow> string list \<Rightarrow> (string \<times> pyval) list option \<Rightarrow> string option
     \<Rightarrow> ('w state, string) prog" where
  "run_cmd env cmd params exc_msg =
     (let exc_msg' = (case exc_msg of
                        None \<Rightarrow> ''An unexpected error occurred''
                      | Some m \<Rightarrow> if m = [] then ''An unexpected error occurred'' else m);
          params1 = (case params of None \<Rightarrow> [] | Some d \<Rightarrow> d);
          params2 = setdefault params1 ''universal_newlines'' (PyBool True);
          params3 = setdefault params2 ''encoding'' (PyStr ''utf-8'');
          params4 = setdefault params3 ''stderr'' (PyInt (- 1));
          params5 = setdefault params4 ''stdout'' (PyInt (- 1))
      in and_then (subprocess_run env cmd params5) (\<lambda>response.
           if returncode response \<noteq> 0
           then (case cmd of
                   [] \<Rightarrow> raise IndexError
                 | c # _ \<Rightarrow>
                     (if c = ''opm''
                      then (case first_error (rev (splitlines env (stderr response))) of
                              Some m \<Rightarrow> raise (IIBError (rstrip_dots exc_msg' @ '': '' @ m))
                            | None \<Rightarrow> raise (IIBError exc_msg'))
                      else raise (IIBError exc_msg')))
           else ret (stdout response)))"

section \<open>Retrying\<close>

text \<open>
  \<^verbatim>\<open>retry(attempts, wait_on, logger)\<close> applied to \<^verbatim>\<open>function\<close>, the arguments of the
  call already given to \<^verbatim>\<open>function\<close>. \<^verbatim>\<open>wait_on\<close> is an exception class, that is a
  predicate on exceptions. The loop \<^verbatim>\<open>while True\<close> is the recursion; the logger does
  not change what is returned or raised.
\<close>

function retry_loop ::
  "('e \<Rightarrow> bool) \<Rightarrow> ('s \<Rightarrow> ('e + 'a) \<times> 's) \<Rightarrow> int \<Rightarrow> 's \<Rightarrow> ('e + 'a) \<times> 's" where
  "retry_loop wait_on function remaining_attempts s =
     (case function s of
        (Inr v, s') \<Rightarrow> (Inr v, s')
      | (Inl e, s') \<Rightarrow>
          (if wait_on e
           then (if remaining_attempts - 1 \<le> 0 then (Inl e, s')
                 else retry_loop wait_on function (remaining_attempts - 1) s')
           else (Inl e, s')))"
  by pat_completeness auto
termination
  by (relation "measure (\<lambda>(wait_on, function, remaining_attempts, s). nat remaining_attempts)")
    auto

declare retry_loop.simps [simp del]

definition retry ::
  "int \<Rightarrow> ('e \<Rightarrow> bool) \<Rightarrow> ('s \<Rightarrow> ('e + 'a) \<times> 's) \<Rightarrow> 's \<Rightarrow> ('e + 'a) \<times> 's" where
  "retry attempts wait_on function = retry_loop wait_on function attempts"

text \<open>
  The outcome of the invocation number \<open>k + 1\<close> when \<^verbatim>\<open>function\<close> is invoked again and
  again from a state, and a wrapper that counts the invocations.
\<close>

fun invocation :: "('s \<Rightarrow> ('e + 'a) \<times> 's) \<Rightarrow> 's \<Rightarrow> nat \<Rightarrow> ('e + 'a) \<times> 's" where
  "invocation function s 0 = function s"
| "invocation function s (Suc k) = function (snd (invocation function s k))"

definition counted :: "('s \<Rightarrow> ('e + 'a) \<times> 's) \<Rightarrow> nat \<times> 's \<Rightarrow> ('e + 'a) \<times> nat \<times> 's" where
  "counted function = (\<lambda>(n, s). case function s of (r, s') \<Rightarrow> (r, (Suc n, s')))"

section \<open>Inspecting images\<close>

text \<open>The body of \<^verbatim>\<open>skopeo_inspect(*args, return_json=True, require_media_type=False)\<close>.\<close>

definition skopeo_inspect_body :: "'w env \<Rightarrow> skopeo_call \<Rightarrow> ('w state, pyval) prog" where
  "skopeo_inspect_body env call =
     (let exc_msg = (case find (\<lambda>arg. startswith arg ''docker://'') (call_args call) of
                       None \<Rightarrow> None
                     | Some arg \<Rightarrow>
                         Some (''Failed to inspect '' @ arg
                               @ ''. Make sure it exists and is accessible to IIB.''));
          cmd = [''skopeo'', ''--command-timeout'', iib_skopeo_timeout env, ''inspect'']
                  @ call_args call
      in and_then (run_cmd env cmd None exc_msg) (\<lambda>output.
           if \<not> return_json call then ret (PyStr output)
           else and_then (lift (json_loads env output)) (\<lambda>json_output.
                  if require_media_type call
                  then and_then (lift (py_get json_output ''mediaType'' PyNone)) (\<lambda>media_type.
                         if \<not> truthy media_type then raise (IIBError ''mediaType not found'')
                         else ret json_output)
                  else ret json_output)))"

text \<open>
  The decorated function: \<^verbatim>\<open>@retry(wait_on=IIBError, logger=log)\<close> around
  \<^verbatim>\<open>@dogpile_cache(...)\<close> around the body.
\<close>

definition skopeo_inspect ::
  "'w env \<Rightarrow> string list \<Rightarrow> bool \<Rightarrow> bool \<Rightarrow> ('w state, pyval) prog" where
  "skopeo_inspect env args rj rmt =
     retry (iib_total_attempts env) is_IIBError
       (dogpile_cache env (skopeo_inspect_body env)
          \<lparr>call_args = args, return_json = rj, require_media_type = rmt\<rparr>)"

text \<open>\<^verbatim>\<open>_get_container_image_name(pull_spec)\<close>\<close>

definition get_container_image_name :: "string \<Rightarrow> string" where
  "get_container_image_name pull_spec =
     (if CHR ''@'' \<in> set pull_spec then takeWhile (\<lambda>c. c \<noteq> CHR ''@'') pull_spec
      else if CHR '':'' \<in> set pull_spec
           then rev (tl (dropWhile (\<lambda>c. c \<noteq> CHR '':'') (rev pull_spec)))
           else pull_spec)"

text \<open>
  \<^verbatim>\<open>get_resolved_image(pull_spec)\<close>. \<^verbatim>\<open>json.loads\<close> takes text only.
\<close>

definition get_resolved_image :: "'w env \<Rightarrow> string \<Rightarrow> ('w state, string) prog" where
  "get_resolved_image env pull_spec =
     (let name = get_container_image_name pull_spec
      in and_then (skopeo_inspect env [''docker://'' @ pull_spec, ''--raw''] False False)
           (\<lambda>skopeo_output.
         and_then (case skopeo_output of
                     PyStr text \<Rightarrow> lift (json_loads env text)
                   | _ \<Rightarrow> raise TypeError) (\<lambda>manifest.
         and_then (lift (py_get manifest ''schemaVersion'' PyNone)) (\<lambda>schema_version.
         and_then
           (if py_eq_int schema_version 2
            then (case skopeo_output of
                    PyStr text \<Rightarrow> ret (PyStr (''sha256:'' @ sha256_hexdigest env text))
                  | _ \<Rightarrow> raise TypeError)
            else and_then (skopeo_inspect env [''docker://'' @ pull_spec] True False)
                   (\<lambda>inspected. lift (py_item inspected ''Digest'')))
           (\<lambda>digest. ret (name @ ''@'' @ py_str env digest))))))"

definition manifest_list_type :: string where
  "manifest_list_type = ''application/vnd.docker.distribution.manifest.list.v2+json''"

definition manifest_v2_type :: string where
  "manifest_v2_type = ''application/vnd.docker.distribution.manifest.v2+json''"

text \<open>
  The body of the loop of \<^verbatim>\<open>get_resolved_bundles\<close>: the string that one bundle adds to
  \<^verbatim>\<open>resolved_bundles\<close>.
\<close>

definition resolve_bundle :: "'w env \<Rightarrow> string \<Rightarrow> ('w state, string) prog" where
  "resolve_bundle env bundle_pull_spec =
     and_then (skopeo_inspect env [''docker://'' @ bundle_pull_spec, ''--raw''] True True)
       (\<lambda>skopeo_raw.
     and_then (lift (py_get skopeo_raw ''mediaType'' PyNone)) (\<lambda>media_type.
       if media_type = PyStr manifest_list_type
       then and_then (lift (py_item skopeo_raw ''manifests'')) (\<lambda>manifests.
            and_then (lift (py_first manifests)) (\<lambda>manifest.
            and_then (lift (py_item manifest ''digest'')) (\<lambda>digest.
              ret (get_container_image_name bundle_pull_spec @ ''@'' @ py_str env digest))))
       else and_then (lift (py_get skopeo_raw ''schemaVersion'' PyNone)) (\<lambda>schema_version.
              if media_type = PyStr manifest_v2_type \<and> py_eq_int schema_version 2
              then get_resolved_image env bundle_pull_spec
              else raise (IIBError
                     (''The pull specification of '' @ bundle_pull_spec @ '' is neither ''
                      @ ''a v2 manifest list nor a v2s2 manifest. Type '' @ py_str env media_type
                      @ '' and schema version '' @ py_str env schema_version
                      @ '' is not supported by IIB.'')))))"

fun resolve_bundles_loop ::
  "'w env \<Rightarrow> string list \<Rightarrow> string set \<Rightarrow> ('w state, string set) prog" where
  "resolve_bundles_loop env [] resolved_bundles s = (Inr resolved_bundles, s)"
| "resolve_bundles_loop env (bundle_pull_spec # bundles) resolved_bundles s =
     (case resolve_bundle env bundle_pull_spec s of
        (Inl e, s') \<Rightarrow> (Inl e, s')
      | (Inr resolved, s') \<Rightarrow>
          resolve_bundles_loop env bundles (insert resolved resolved_bundles) s')"

text \<open>
  \<^verbatim>\<open>get_resolved_bundles(bundles)\<close>. The source returns \<^verbatim>\<open>list(resolved_bundles)\<close>,
  the elements of the set in an order Python does not fix; the embedding returns the set.
\<close>

definition get_resolved_bundles :: "'w env \<Rightarrow> string list \<Rightarrow> ('w state, string set) prog" where
  "get_resolved_bundles env bundles = resolve_bundles_loop env bundles {}"

text \<open>\<^verbatim>\<open>get_bundles_from_deprecation_list(bundles, deprecation_list)\<close>\<close>

definition get_bundles_from_deprecation_list ::
  "'w env \<Rightarrow> string list \<Rightarrow> string list \<Rightarrow> ('w state, string list) prog" where
  "get_bundles_from_deprecation_list env bundles deprecation_list =
     and_then (get_resolved_bundles env deprecation_list) (\<lambda>resolved_deprecation_list.
       ret (filter (\<lambda>bundle. bundle \<in> resolved_deprecation_list) bundles))"

section \<open>Files\<close>

text \<open>
  The file operations of the module, on the paths it uses. Opening a path or testing
  that it exists follows symbolic links, at most 40 of them; removing a path or making
  a link at it does not. A path names a node through its directory: an operation on a
  path fails when the directory of the path is missing or is not a directory. Every
  directory grants access.
\<close>

fun final_path :: "nat \<Rightarrow> (string \<Rightarrow> node option) \<Rightarrow> string \<Rightarrow> string option" where
  "final_path 0 files p = (case files p of Some (Symlink q) \<Rightarrow> None | _ \<Rightarrow> Some p)"
| "final_path (Suc n) files p =
     (case files p of Some (Symlink q) \<Rightarrow> final_path n files q | _ \<Rightarrow> Some p)"

text \<open>\<^verbatim>\<open>os.path.exists(p)\<close>\<close>

definition path_exists :: "(string \<Rightarrow> node option) \<Rightarrow> string \<Rightarrow> bool" where
  "path_exists files p =
     (case final_path 40 files p of None \<Rightarrow> False | Some q \<Rightarrow> files q \<noteq> None)"

text \<open>\<^verbatim>\<open>os.path.dirname(p)\<close>\<close>

definition dirname :: "string \<Rightarrow> string" where
  "dirname p =
     (let head = rev (dropWhile (\<lambda>c. c \<noteq> CHR ''/'') (rev p))
      in if head \<noteq> [] \<and> \<not> list_all (\<lambda>c. c = CHR ''/'') head
         then rev (dropWhile (\<lambda>c. c = CHR ''/'') (rev head))
         else head)"

text \<open>
  The lookup of a directory: the root and the current directory are there; any other
  one has to lead to a directory node.
\<close>

definition find_directory :: "(string \<Rightarrow> node option) \<Rightarrow> string \<Rightarrow> exn + unit" where
  "find_directory files d =
     (if list_all (\<lambda>c. c = CHR ''/'') d then Inr ()
      else (case final_path 40 files d of
              None \<Rightarrow> Inl (OtherException ''ELOOP'')
            | Some q \<Rightarrow>
                (case files q of
                   None \<Rightarrow> Inl FileNotFoundError
                 | Some Directory \<Rightarrow> Inr ()
                 | Some _ \<Rightarrow> Inl NotADirectoryError)))"


text \<open>\<^verbatim>\<open>os.remove(p)\<close>\<close>

definition os_remove :: "string \<Rightarrow> ('w state, unit) prog" where
  "os_remove p s =
     (case find_directory (fs s) (dirname p) of
        Inl e \<Rightarrow> (Inl e, s)
      | Inr u \<Rightarrow>
          (case fs s p of
             None \<Rightarrow> (Inl FileNotFoundError, s)
           | Some Directory \<Rightarrow> (Inl IsADirectoryError, s)
           | Some _ \<Rightarrow> (Inr (), s\<lparr>fs := (fs s)(p := None)\<rparr>)))"

text \<open>\<^verbatim>\<open>os.symlink(src, dst)\<close>\<close>

definition os_symlink :: "string \<Rightarrow> string \<Rightarrow> ('w state, unit) prog" where
  "os_symlink src dst s =
     (case find_directory (fs s) (dirname dst) of
        Inl e \<Rightarrow> (Inl e, s)
      | Inr u \<Rightarrow>
          (case fs s dst of
             None \<Rightarrow> (Inr (), s\<lparr>fs := (fs s)(dst := Some (Symlink src))\<rparr>)
           | Some _ \<Rightarrow> (Inl FileExistsError, s)))"

text \<open>\<^verbatim>\<open>with open(p, 'r') as f\<close> and reading all of \<^verbatim>\<open>f\<close>.\<close>

definition read_file :: "string \<Rightarrow> ('w state, string) prog" where
  "read_file p s =
     (case final_path 40 (fs s) p of
        None \<Rightarrow> (Inl (OtherException ''ELOOP''), s)
      | Some q \<Rightarrow>
          (case find_directory (fs s) (dirname q) of
             Inl e \<Rightarrow> (Inl e, s)
           | Inr u \<Rightarrow>
               (case fs s q of
                  Some (File content) \<Rightarrow> (Inr content, s)
                | Some Directory \<Rightarrow> (Inl IsADirectoryError, s)
                | _ \<Rightarrow> (Inl FileNotFoundError, s))))"

text \<open>
  \<^verbatim>\<open>with open(p, 'w') as f\<close> and writing \<^verbatim>\<open>content\<close> to \<^verbatim>\<open>f\<close>: the file is made when
  it is not there, in a directory that has to be there.
\<close>

definition write_file :: "string \<Rightarrow> string \<Rightarrow> ('w state, unit) prog" where
  "write_file p content s =
     (case final_path 40 (fs s) p of
        None \<Rightarrow> (Inl (OtherException ''ELOOP''), s)
      | Some q \<Rightarrow>
          (case find_directory (fs s) (dirname q) of
             Inl e \<Rightarrow> (Inl e, s)
           | Inr u \<Rightarrow>
               (case fs s q of
                  Some Directory \<Rightarrow> (Inl IsADirectoryError, s)
                | _ \<Rightarrow> (Inr (), s\<lparr>fs := (fs s)(q := Some (File content))\<rparr>))))"

text \<open>\<^verbatim>\<open>os.path.join(a, b)\<close>\<close>

definition path_join :: "string \<Rightarrow> string \<Rightarrow> string" where
  "path_join a b =
     (if startswith b ''/'' then b
      else if a = [] \<or> last a = CHR ''/'' then a @ b
      else a @ ''/'' @ b)"

text \<open>\<^verbatim>\<open>os.path.join(os.path.expanduser('~'), '.docker', 'config.json')\<close>\<close>

definition docker_config_path :: "'w env \<Rightarrow> string" where
  "docker_config_path env = path_join (path_join (home env) ''.docker'') ''config.json''"

section \<open>Registry credentials\<close>

text \<open>\<^verbatim>\<open>try: m except FileNotFoundError: pass\<close>\<close>

definition ignore_file_not_found :: "('s, unit) prog \<Rightarrow> ('s, unit) prog" where
  "ignore_file_not_found m s =
     (case m s of (Inl FileNotFoundError, s') \<Rightarrow> (Inr (), s') | r \<Rightarrow> r)"

text \<open>
  \<^verbatim>\<open>try: m finally: cleanup\<close>: the cleanup runs on every exit of \<^verbatim>\<open>m\<close>; an exception
  of the cleanup replaces the outcome of \<^verbatim>\<open>m\<close>.
\<close>

definition try_finally :: "('s, 'a) prog \<Rightarrow> ('s, unit) prog \<Rightarrow> ('s, 'a) prog" where
  "try_finally m cleanup s =
     (case m s of (r, s') \<Rightarrow>
        (case cleanup s' of (Inl e, s'') \<Rightarrow> (Inl e, s'') | (Inr u, s'') \<Rightarrow> (r, s'')))"

text \<open>\<^verbatim>\<open>reset_docker_config()\<close>\<close>

definition reset_docker_config :: "'w env \<Rightarrow> ('w state, unit) prog" where
  "reset_docker_config env =
     and_then (ignore_file_not_found (os_remove (docker_config_path env))) (\<lambda>u s.
       if path_exists (fs s) (iib_docker_config_template env)
       then os_symlink (iib_docker_config_template env) (docker_config_path env) s
       else (Inr (), s))"

text \<open>\<^verbatim>\<open>d[key] = v\<close> and \<^verbatim>\<open>d.update(other)\<close> on dictionaries in insertion order.\<close>

fun dict_set :: "(string \<times> pyval) list \<Rightarrow> string \<Rightarrow> pyval \<Rightarrow> (string \<times> pyval) list" where
  "dict_set [] key v = [(key, v)]"
| "dict_set ((k, w) # d) key v = (if k = key then (k, v) # d else (k, w) # dict_set d key v)"

fun dict_update ::
  "(string \<times> pyval) list \<Rightarrow> (string \<times> pyval) list \<Rightarrow> (string \<times> pyval) list" where
  "dict_update d [] = d"
| "dict_update d ((k, v) # other) = dict_update (dict_set d k v) other"

text \<open>
  Lines 428 to 433 of \<^verbatim>\<open>set_registry_auths\<close>: the template of the Docker
  configuration as a Python value, the empty dictionary when there is no template.
\<close>

definition load_docker_config_template :: "'w env \<Rightarrow> ('w state, pyval) prog" where
  "load_docker_config_template env s =
     (if path_exists (fs s) (iib_docker_config_template env)
      then and_then (read_file (iib_docker_config_template env))
             (\<lambda>text. lift (json_loads env text)) s
      else (Inr (PyDict []), s))"

text \<open>
  Lines 435 to 441: \<^verbatim>\<open>registry_auths.get('auths', {}).keys()\<close> needs two dictionaries,
  \<^verbatim>\<open>docker_config.setdefault\<close> a third and \<^verbatim>\<open>docker_config['auths'].update\<close> a
  fourth; the result is \<^verbatim>\<open>docker_config\<close> after the update.
\<close>

definition merge_registry_auths :: "pyval \<Rightarrow> pyval \<Rightarrow> exn + pyval" where
  "merge_registry_auths docker_config registry_auths =
     (case py_get registry_auths ''auths'' (PyDict []) of
        Inl e \<Rightarrow> Inl e
      | Inr (PyDict new_auths) \<Rightarrow>
          (case docker_config of
             PyDict config \<Rightarrow>
               (let config' = setdefault config ''auths'' (PyDict [])
                in case map_of config' ''auths'' of
                     Some (PyDict old_auths) \<Rightarrow>
                       Inr (PyDict (dict_set config' ''auths''
                              (PyDict (dict_update old_auths new_auths))))
                   | _ \<Rightarrow> Inl AttributeError)
           | _ \<Rightarrow> Inl AttributeError)
      | Inr _ \<Rightarrow> Inl AttributeError)"

text \<open>
  The part of \<^verbatim>\<open>set_registry_auths\<close> between \<^verbatim>\<open>try:\<close> and \<^verbatim>\<open>yield\<close>: the Docker
  configuration is removed, the template is read and merged with the given
  authorisations, and the result is written as a regular file.
\<close>

definition write_registry_auths :: "'w env \<Rightarrow> pyval \<Rightarrow> ('w state, unit) prog" where
  "write_registry_auths env registry_auths =
     and_then (ignore_file_not_found (os_remove (docker_config_path env))) (\<lambda>u.
     and_then (load_docker_config_template env) (\<lambda>docker_config.
     and_then (lift (merge_registry_auths docker_config registry_auths)) (\<lambda>merged.
       write_file (docker_config_path env) (json_dumps env merged))))"

text \<open>
  \<^verbatim>\<open>set_registry_auths(registry_auths)\<close> around the block \<^verbatim>\<open>body\<close> of its
  \<^verbatim>\<open>with\<close> statement. An exception of the block is raised at \<^verbatim>\<open>yield\<close>.
\<close>

definition set_registry_auths ::
  "'w env \<Rightarrow> pyval \<Rightarrow> ('w state, 'a) prog \<Rightarrow> ('w state, 'a) prog" where
  "set_registry_auths env registry_auths body =
     (if \<not> truthy registry_auths then body
      else try_finally (and_then (write_registry_auths env registry_auths) (\<lambda>u. body))
             (reset_docker_config env))"

text \<open>\<^verbatim>\<open>set_registry_token(token, container_image)\<close> around the block \<^verbatim>\<open>body\<close>.\<close>

definition set_registry_token ::
  "'w env \<Rightarrow> string option \<Rightarrow> string option \<Rightarrow> ('w state, 'a) prog \<Rightarrow> ('w state, 'a) prog" where
  "set_registry_token env token container_image body =
     (case token of
        None \<Rightarrow> body
      | Some tok \<Rightarrow>
          if tok = [] then body
          else (case container_image of
                  None \<Rightarrow> body
                | Some image_ref \<Rightarrow>
                    if image_ref = [] then body
                    else (let registry = image_registry env image_ref;
                              encoded_token = b64encode env tok;
                              registry_auths =
                                PyDict [(''auths'',
                                  PyDict [(registry, PyDict [(''auth'', PyStr encoded_token)])])]
                          in set_registry_auths env registry_auths body)))"

section \<open>Labels and architectures\<close>

text \<open>\<^verbatim>\<open>get_image_labels(pull_spec)\<close>\<close>

definition get_image_labels :: "'w env \<Rightarrow> string \<Rightarrow> ('w state, pyval) prog" where
  "get_image_labels env pull_spec =
     (let full_pull_spec = (if startswith pull_spec ''docker://'' then pull_spec
                            else ''docker://'' @ pull_spec)
      in and_then (skopeo_inspect env [full_pull_spec, ''--config''] True False) (\<lambda>inspected.
         and_then (lift (py_get inspected ''config'' (PyDict []))) (\<lambda>config.
           lift (py_get config ''Labels'' (PyDict [])))))"

text \<open>\<^verbatim>\<open>get_image_label(pull_spec, label)\<close>\<close>

definition get_image_label :: "'w env \<Rightarrow> string \<Rightarrow> string \<Rightarrow> ('w state, pyval) prog" where
  "get_image_label env pull_spec label =
     and_then (get_image_labels env pull_spec) (\<lambda>labels. lift (py_get labels label PyNone))"

text \<open>The characters of a string, and what a \<^verbatim>\<open>for\<close> loop iterates over.\<close>

fun utf8_chars :: "string \<Rightarrow> string list" where
  "utf8_chars [] = []"
| "utf8_chars (c # cs) =
     (c # take (utf8_length c - 1) cs) # utf8_chars (drop (utf8_length c - 1) cs)"

fun py_iter :: "pyval \<Rightarrow> exn + pyval list" where
  "py_iter (PyList xs) = Inr xs"
| "py_iter (PyDict kvs) = Inr (map (\<lambda>kv. PyStr (fst kv)) kvs)"
| "py_iter (PyStr s) = Inr (map PyStr (utf8_chars s))"
| "py_iter v = Inl TypeError"

text \<open>\<^verbatim>\<open>arches.add(v)\<close>: lists and dictionaries are not hashable.\<close>

fun set_add :: "pyval set \<Rightarrow> pyval \<Rightarrow> exn + pyval set" where
  "set_add A (PyList xs) = Inl TypeError"
| "set_add A (PyDict kvs) = Inl TypeError"
| "set_add A v = Inr (insert v A)"

fun manifest_arches :: "pyval list \<Rightarrow> pyval set \<Rightarrow> exn + pyval set" where
  "manifest_arches [] arches = Inr arches"
| "manifest_arches (manifest # manifests) arches =
     (case py_item manifest ''platform'' of
        Inl e \<Rightarrow> Inl e
      | Inr platform \<Rightarrow>
          (case py_item platform ''architecture'' of
             Inl e \<Rightarrow> Inl e
           | Inr architecture \<Rightarrow>
               (case set_add arches architecture of
                  Inl e \<Rightarrow> Inl e
                | Inr arches' \<Rightarrow> manifest_arches manifests arches')))"

text \<open>\<^verbatim>\<open>get_image_arches(pull_spec)\<close>\<close>

definition get_image_arches :: "'w env \<Rightarrow> string \<Rightarrow> ('w state, pyval set) prog" where
  "get_image_arches env pull_spec =
     and_then (skopeo_inspect env [''docker://'' @ pull_spec, ''--raw''] True False)
       (\<lambda>skopeo_raw.
     and_then (lift (py_get skopeo_raw ''mediaType'' PyNone)) (\<lambda>media_type.
       if media_type = PyStr manifest_list_type
       then and_then (lift (py_item skopeo_raw ''manifests'')) (\<lambda>manifests.
            and_then (lift (py_iter manifests)) (\<lambda>items.
              lift (manifest_arches items {})))
       else if media_type = PyStr manifest_v2_type
       then and_then (skopeo_inspect env [''docker://'' @ pull_spec, ''--config''] True False)
              (\<lambda>skopeo_out.
            and_then (lift (py_item skopeo_out ''architecture'')) (\<lambda>architecture.
              lift (set_add {} architecture)))
       else raise (IIBError (''The pull specification of '' @ pull_spec
                     @ '' is neither a v2 manifest list nor a v2 manifest''))))"

section \<open>Index image information\<close>

record index_image_info =
  resolved_from_index :: "string option"
  ocp_version :: pyval
  arches :: "pyval set"
  resolved_distribution_scope :: pyval

text \<open>\<^verbatim>\<open>x or y\<close>\<close>

definition py_or :: "pyval \<Rightarrow> pyval \<Rightarrow> pyval" where
  "py_or x y = (if truthy x then x else y)"

text \<open>
  \<^verbatim>\<open>get_index_image_info(overwrite_from_index_token, from_index=None,
  default_ocp_version='v4.5')\<close>. An argument that the call leaves out is \<open>None\<close> here;
  \<^verbatim>\<open>from_index\<close> is then Python's \<^verbatim>\<open>None\<close> and \<^verbatim>\<open>default_ocp_version\<close> is 'v4.5'.
\<close>

definition get_index_image_info ::
  "'w env \<Rightarrow> string option \<Rightarrow> string option \<Rightarrow> string option
     \<Rightarrow> ('w state, index_image_info) prog" where
  "get_index_image_info env overwrite_from_index_token from_index default_ocp_version =
     (let result = \<lparr>resolved_from_index = None,
                    ocp_version = PyStr (case default_ocp_version of
                                           None \<Rightarrow> ''v4.5'' | Some v \<Rightarrow> v),
                    arches = {},
                    resolved_distribution_scope = PyStr ''prod''\<rparr>
      in case from_index of
           None \<Rightarrow> ret result
         | Some index \<Rightarrow>
             if index = [] then ret result
             else set_registry_token env overwrite_from_index_token from_index
                    (and_then (get_resolved_image env index) (\<lambda>from_index_resolved.
                     and_then (get_image_arches env from_index_resolved) (\<lambda>image_arches.
                     and_then (get_image_label env from_index_resolved
                                 ''com.redhat.index.delivery.version'') (\<lambda>version.
                     and_then (get_image_label env from_index_resolved
                                 ''com.redhat.index.delivery.distribution_scope'') (\<lambda>scope.
                       ret \<lparr>resolved_from_index = Some from_index_resolved,
                            ocp_version = py_or version (PyStr ''v4.5''),
                            arches = image_arches,
                            resolved_distribution_scope = py_or scope (PyStr ''prod'')\<rparr>))))))"

section \<open>The architectures of the binary image\<close>

text \<open>
  \<^verbatim>\<open>', '.join(sorted(A))\<close> for a set: strings are ordered by their characters; a value
  that is not a string stops \<^verbatim>\<open>sorted\<close> or \<^verbatim>\<open>join\<close> with a \<^verbatim>\<open>TypeError\<close>.
\<close>

definition join_sorted :: "pyval set \<Rightarrow> exn + string" where
  "join_sorted A =
     (if \<forall>v \<in> A. is_str v then Inr (join '', '' (sorted_list_of_set (the_str ` A)))
      else Inl TypeError)"

text \<open>
  Lines 840 to 845 of \<^verbatim>\<open>prepare_request_for_build\<close>: the architectures gathered for the
  request against the architectures of the resolved binary image.
\<close>

definition check_binary_image_arches :: "pyval set \<Rightarrow> pyval set \<Rightarrow> exn + unit" where
  "check_binary_image_arches request_arches binary_image_arches =
     (if \<not> request_arches \<subseteq> binary_image_arches
      then (case join_sorted (request_arches - binary_image_arches) of
              Inl e \<Rightarrow> Inl e
            | Inr listed \<Rightarrow>
                Inl (IIBError (''The binary image is not available for the following arches: ''
                               @ listed)))
      else Inr ())"

section \<open>A sample environment\<close>

text \<open>
  A registry with four images, used to run the definitions: a manifest list, a v2
  schema 2 manifest, an OCI manifest, and a manifest whose bytes end with a carriage
  return and a line feed. The inspection tool prints bytes whose text the sample parser
  knows; the world counts the child processes. The sample digest function knows the
  SHA-256 digests of the last manifest, of its bytes and of its text.
\<close>

definition sample_manifest_list :: pyval where
  "sample_manifest_list =
     PyDict [(''mediaType'', PyStr manifest_list_type), (''schemaVersion'', PyInt 2),
       (''manifests'', PyList
          [PyDict [(''digest'', PyStr ''sha256:aaa''),
                   (''platform'', PyDict [(''architecture'', PyStr ''amd64'')])],
           PyDict [(''digest'', PyStr ''sha256:bbb''),
                   (''platform'', PyDict [(''architecture'', PyStr ''s390x'')])]])]"

definition sample_manifest_v2 :: pyval where
  "sample_manifest_v2 =
     PyDict [(''mediaType'', PyStr manifest_v2_type), (''schemaVersion'', PyInt 2)]"

definition sample_manifest_oci :: pyval where
  "sample_manifest_oci =
     PyDict [(''mediaType'', PyStr ''application/vnd.oci.image.manifest.v1+json''),
       (''schemaVersion'', PyInt 2)]"

definition sample_loads :: "string \<Rightarrow> exn + pyval" where
  "sample_loads text =
     (if text = ''manifest list'' then Inr sample_manifest_list
      else if text = ''manifest v2'' then Inr sample_manifest_v2
      else if text = ''manifest oci'' then Inr sample_manifest_oci
      else if text = ''{}'' then Inr (PyDict [])
      else if text = ''{\"schemaVersion\": 2}'' @ [CHR 0x0A]
      then Inr (PyDict [(''schemaVersion'', PyInt 2)])
      else Inl JSONDecodeError)"

definition sample_run ::
  "string list \<Rightarrow> (string \<times> pyval) list \<Rightarrow> (nat state, completed_process) prog" where
  "sample_run cmd params s =
     (Inr \<lparr>returncode = 0,
           stdout =
             (if list_ex (\<lambda>arg. startswith arg ''docker://registry.example/ns/bundle'') cmd
              then ''manifest list''
              else if list_ex (\<lambda>arg. startswith arg ''docker://registry.example/ns/crlf'') cmd
              then ''{\"schemaVersion\": 2}'' @ [CHR 0x0D, CHR 0x0A]
              else if list_ex (\<lambda>arg. startswith arg ''docker://registry.example/ns/image'') cmd
              then ''manifest v2''
              else ''manifest oci''),
           stderr = []\<rparr>,
      s\<lparr>world := Suc (world s)\<rparr>)"

definition sample_sha256 :: "string \<Rightarrow> string" where
  "sample_sha256 text =
     (if text = ''{\"schemaVersion\": 2}'' @ [CHR 0x0D, CHR 0x0A]
      then ''1fb7896781b4864e5469eb92590e478b9fb8c2f2c2d58fe5d7207e176f9d8cd7''
      else if text = ''{\"schemaVersion\": 2}'' @ [CHR 0x0A]
      then ''7a6a05b89219688e59f0c324927f4696e9e4a1176eb1dc82c6b76a06d9315cf3''
      else ''0123'')"

definition sample_env :: "nat env" where
  "sample_env =
     \<lparr>iib_total_attempts = 5,
      iib_skopeo_timeout = ''300s'',
      iib_docker_config_template = ''/etc/iib/docker.json'',
      home = ''/home/iib'',
      child_process = sample_run,
      other_decoding = (\<lambda>params bytes. Inr bytes),
      splitlines = (\<lambda>text. [text]),
      json_loads = sample_loads,
      json_dumps = (\<lambda>v. ''{}''),
      sha256_hexdigest = sample_sha256,
      b64encode = (\<lambda>text. if text = ''u:p'' then ''dTpw'' else []),
      image_registry = takeWhile (\<lambda>c. c \<noteq> CHR ''/''),
      py_repr = (\<lambda>v. ''?''),
      dogpile_cache = (\<lambda>f. f)\<rparr>"

definition sample_state :: "nat state" where
  "sample_state = \<lparr>fs = (\<lambda>p. None), world = 0\<rparr>"







text \<open>An operation that fails with an \<^verbatim>\<open>IIBError\<close> twice and then succeeds.\<close>

definition flaky :: "nat \<Rightarrow> (exn + nat) \<times> nat" where
  "flaky s = (if s < 2 then Inl (IIBError ''not yet'') else Inr s, Suc s)"

section \<open>Properties of the distribution scope validation\<close>

lemma list_index_scopes:
  "list_index (map PyStr scopes) (PyStr s) =
     (if s \<in> set scopes then Inr (spec_rank s) else Inl ValueError)"
  by (simp add: scopes_def spec_rank_def)

lemma list_index_outside:
  "v \<notin> set xs \<Longrightarrow> list_index xs v = Inl ValueError"
  by (induction xs) auto

lemma list_index_inside:
  "v \<in> set xs \<Longrightarrow> \<exists>i. list_index xs v = Inr i"
  by (induction xs) auto

text \<open>
  C5. For scope strings drawn from dev, stage and prod: when no scope is requested
  (\<^verbatim>\<open>None\<close> or the empty string) the resolved scope is returned unchanged; otherwise the
  call fails exactly when the requested scope ranks above the resolved one in the order
  dev < stage < prod, and returns the requested scope when it does not fail.
\<close>

theorem validate_distribution_scope_rank:
  assumes "resolved \<in> set scopes" and "requested \<in> set scopes"
  shows "validate_distribution_scope (PyStr resolved) PyNone = Inr (PyStr resolved)
       \<and> validate_distribution_scope (PyStr resolved) (PyStr []) = Inr (PyStr resolved)
       \<and> ((\<exists>e. validate_distribution_scope (PyStr resolved) (PyStr requested) = Inl e)
            \<longleftrightarrow> spec_rank requested > spec_rank resolved)
       \<and> (spec_rank requested > spec_rank resolved \<longrightarrow>
            (\<exists>m. validate_distribution_scope (PyStr resolved) (PyStr requested)
                    = Inl (IIBError m)))
       \<and> (\<not> spec_rank requested > spec_rank resolved \<longrightarrow>
            validate_distribution_scope (PyStr resolved) (PyStr requested)
              = Inr (PyStr requested))"
proof -
  have ne: "requested \<noteq> []"
    using assms(2) by (auto simp: scopes_def)
  show ?thesis
    using assms ne
    by (simp add: validate_distribution_scope_def list_index_scopes)
qed

theorem validate_distribution_scope_rank_witness:
  "validate_distribution_scope (PyStr ''dev'') PyNone = Inr (PyStr ''dev'')
   \<and> (\<exists>m. validate_distribution_scope (PyStr ''dev'') (PyStr ''prod'') = Inl (IIBError m))
   \<and> spec_rank ''prod'' > spec_rank ''dev''"
  using validate_distribution_scope_rank [of "''dev''" "''prod''"]
  by (simp add: scopes_def spec_rank_def)

text \<open>
  C10. The validation is total only on dev, stage and prod: with a requested scope that
  is not empty, a requested or a resolved scope outside these three makes the ranking
  lookup raise \<^verbatim>\<open>ValueError\<close>, which is not an \<^verbatim>\<open>IIBError\<close>.
\<close>

theorem validate_distribution_scope_partial:
  assumes "truthy requested"
    and "requested \<notin> PyStr ` set scopes \<or> resolved \<notin> PyStr ` set scopes"
  shows "validate_distribution_scope resolved requested = Inl ValueError
       \<and> \<not> is_IIBError ValueError"
proof (cases "requested \<in> PyStr ` set scopes")
  case False
  then have "list_index (map PyStr scopes) requested = Inl ValueError"
    by (intro list_index_outside) simp
  with assms(1) show ?thesis
    by (simp add: validate_distribution_scope_def)
next
  case True
  then obtain i where i: "list_index (map PyStr scopes) requested = Inr i"
    using list_index_inside [of requested "map PyStr scopes"] by auto
  from True assms(2) have "resolved \<notin> PyStr ` set scopes" by simp
  then have "list_index (map PyStr scopes) resolved = Inl ValueError"
    by (intro list_index_outside) simp
  with assms(1) i show ?thesis
    by (simp add: validate_distribution_scope_def)
qed

theorem validate_distribution_scope_partial_witness:
  "validate_distribution_scope (PyStr ''prod'') (PyStr ''qa'') = Inl ValueError
   \<and> validate_distribution_scope (PyStr ''test'') (PyStr ''dev'') = Inl ValueError"
  using validate_distribution_scope_partial [of "PyStr ''qa''" "PyStr ''prod''"]
    validate_distribution_scope_partial [of "PyStr ''dev''" "PyStr ''test''"]
  by (simp add: scopes_def)

section \<open>Properties of the request configuration\<close>

lemma config_eq_class: "config_eq self other = (cls self = cls other)"
  by (simp add: config_eq_def)

text \<open>
  C9. Equality of request configurations is meant to be structural and type-tagged.
  The comparison of the source reads both value lists from \<^verbatim>\<open>self\<close>: two
  add/remove configurations that differ in \<^verbatim>\<open>from_index\<close> compare equal.
\<close>

theorem config_eq_ignores_fields:
  "(case (init_config RequestConfigAddRm [(''from_index'', PyStr ''registry/index:1'')],
          init_config RequestConfigAddRm [(''from_index'', PyStr ''registry/index:2'')]) of
      (Inr a, Inr b) \<Rightarrow>
         getattr a ''from_index'' = Inr (PyStr ''registry/index:1'')
       \<and> getattr b ''from_index'' = Inr (PyStr ''registry/index:2'')
       \<and> config_eq a b
    | _ \<Rightarrow> False)"
  by (simp add: init_config_def setattr_def hasattr_def getattr_def config_eq_def
        RequestConfig_attrs_def)

section \<open>Properties of computations\<close>

lemma and_then_Inr: "m s = (Inr v, s') \<Longrightarrow> and_then m k s = k v s'"
  by (simp add: and_then_def)

lemma and_then_Inl: "m s = (Inl e, s') \<Longrightarrow> and_then m k s = (Inl e, s')"
  by (simp add: and_then_def)

lemma and_then_ret: "and_then (ret v) k s = k v s"
  by (simp add: and_then_def ret_def)

lemma and_then_raise: "and_then (raise e) k s = (Inl e, s)"
  by (simp add: and_then_def raise_def)

lemma and_then_lift:
  "and_then (lift r) k s = (case r of Inl e \<Rightarrow> (Inl e, s) | Inr v \<Rightarrow> k v s)"
  by (simp add: and_then_def lift_def split: sum.splits)

lemma and_then_result:
  "and_then m k s = (Inr r, t) \<Longrightarrow> \<exists>v s'. m s = (Inr v, s') \<and> k v s' = (Inr r, t)"
  by (auto simp: and_then_def split: prod.splits sum.splits)

section \<open>Properties of retrying\<close>

lemma retry_loop_success:
  "f s = (Inr v, s') \<Longrightarrow> retry_loop C f n s = (Inr v, s')"
  by (subst retry_loop.simps) simp

lemma retry_loop_other:
  "f s = (Inl e, s') \<Longrightarrow> \<not> C e \<Longrightarrow> retry_loop C f n s = (Inl e, s')"
  by (subst retry_loop.simps) simp

lemma retry_loop_last:
  "f s = (Inl e, s') \<Longrightarrow> C e \<Longrightarrow> n \<le> 1 \<Longrightarrow> retry_loop C f n s = (Inl e, s')"
  by (subst retry_loop.simps) simp

lemma retry_loop_again:
  "f s = (Inl e, s') \<Longrightarrow> C e \<Longrightarrow> 1 < n
   \<Longrightarrow> retry_loop C f n s = retry_loop C f (n - 1) s'"
  by (subst retry_loop.simps) simp

lemma invocation_shift:
  "invocation f s (Suc k) = invocation f (snd (f s)) k"
  by (induction k) simp_all

lemma retry_loop_outcome:
  "1 \<le> n \<Longrightarrow>
   \<exists>k < nat n. retry_loop C f n s = invocation f s k
      \<and> (\<forall>j<k. \<exists>e. fst (invocation f s j) = Inl e \<and> C e)
      \<and> ((\<exists>e. fst (invocation f s k) = Inl e \<and> C e) \<longrightarrow> Suc k = nat n)"
proof (induction C f n s rule: retry_loop.induct)
  case (1 C f n s)
  obtain r s' where fs: "f s = (r, s')" by (cases "f s")
  show ?case
  proof (cases r)
    case (Inr v)
    with fs 1(2) show ?thesis
      by (intro exI [of _ 0]) (simp add: retry_loop_success)
  next
    case (Inl e)
    show ?thesis
    proof (cases "C e \<and> \<not> n - 1 \<le> 0")
      case False
      then consider "\<not> C e" | "C e" "n \<le> 1" by linarith
      then have "retry_loop C f n s = (Inl e, s')"
        using fs Inl by cases (simp_all add: retry_loop_other retry_loop_last)
      with fs Inl 1(2) False show ?thesis
        by (intro exI [of _ 0]) auto
    next
      case True
      then have n1: "1 \<le> n - 1" by simp
      from True have c: "C e" and n: "\<not> n - 1 \<le> 0" by simp_all
      from "1.IH" [OF fs [symmetric] Inl c n n1]
      obtain k where k: "k < nat (n - 1)"
        "retry_loop C f (n - 1) s' = invocation f s' k"
        "\<forall>j<k. \<exists>e. fst (invocation f s' j) = Inl e \<and> C e"
        "(\<exists>e. fst (invocation f s' k) = Inl e \<and> C e) \<longrightarrow> Suc k = nat (n - 1)"
        by auto
      have shift: "invocation f s (Suc j) = invocation f s' j" for j
        using invocation_shift [of f s j] fs by simp
      have first: "fst (invocation f s 0) = Inl e"
        using fs Inl by simp
      have prev: "\<exists>e. fst (invocation f s j) = Inl e \<and> C e" if "j < Suc k" for j
      proof (cases j)
        case 0
        with first c show ?thesis by blast
      next
        case (Suc i)
        with that have "i < k" by simp
        with k(3) have "\<exists>e. fst (invocation f s' i) = Inl e \<and> C e" by blast
        with Suc shift [of i] show ?thesis by simp
      qed
      have "1 < n" using n by simp
      then have res: "retry_loop C f n s = invocation f s (Suc k)"
        using fs Inl c k(2) shift [of k] by (simp add: retry_loop_again)
      have bound: "Suc k < nat n" using k(1) n by linarith
      have last: "(\<exists>e. fst (invocation f s (Suc k)) = Inl e \<and> C e) \<longrightarrow> Suc (Suc k) = nat n"
        using k(4) k(1) n shift [of k] by auto
      from res bound prev last show ?thesis
        by (intro exI [of _ "Suc k"]) blast
    qed
  qed
qed

lemma retry_loop_single:
  "n \<le> 1 \<Longrightarrow> retry_loop C f n s = f s"
  by (subst retry_loop.simps) (auto split: prod.splits sum.splits)

lemma counted_invocation:
  "fst (snd (invocation (counted f) (n, s) k)) = n + k + 1"
  by (induction k) (auto simp: counted_def split: prod.splits)

text \<open>
  C8. With \<open>N \<ge> 1\<close> attempts and the retried class \<open>C\<close>, the wrapper returns the
  outcome of one of the first \<open>N\<close> invocations of the operation, every invocation before
  it having failed with an exception in \<open>C\<close>: a result or an exception outside \<open>C\<close> ends
  the loop at once, an exception in \<open>C\<close> is the outcome only of invocation \<open>N\<close>, and it is
  returned as it was raised. The operation is invoked at most \<open>N\<close> times. In
  particular a result or an exception outside \<open>C\<close> of the first invocation is the
  outcome of the wrapper.
\<close>

theorem retry_attempts:
  assumes "1 \<le> N"
  shows "(\<exists>k < nat N. retry N C f s = invocation f s k
            \<and> (\<forall>j<k. \<exists>e. fst (invocation f s j) = Inl e \<and> C e)
            \<and> ((\<exists>e. fst (invocation f s k) = Inl e \<and> C e) \<longrightarrow> Suc k = nat N))
       \<and> fst (snd (retry N C (counted f) (0, s))) \<le> nat N
       \<and> (\<forall>e s'. f s = (Inl e, s') \<and> \<not> C e \<longrightarrow> retry N C f s = (Inl e, s'))
       \<and> (\<forall>v s'. f s = (Inr v, s') \<longrightarrow> retry N C f s = (Inr v, s'))"
proof (intro conjI)
  show "\<exists>k < nat N. retry N C f s = invocation f s k
            \<and> (\<forall>j<k. \<exists>e. fst (invocation f s j) = Inl e \<and> C e)
            \<and> ((\<exists>e. fst (invocation f s k) = Inl e \<and> C e) \<longrightarrow> Suc k = nat N)"
    unfolding retry_def using assms by (rule retry_loop_outcome)
  from retry_loop_outcome [OF assms, of C "counted f" "(0, s)"]
  obtain k where "k < nat N" "retry N C (counted f) (0, s) = invocation (counted f) (0, s) k"
    unfolding retry_def by blast
  then show "fst (snd (retry N C (counted f) (0, s))) \<le> nat N"
    by (simp add: counted_invocation)
  show "\<forall>e s'. f s = (Inl e, s') \<and> \<not> C e \<longrightarrow> retry N C f s = (Inl e, s')"
    by (simp add: retry_def retry_loop_other)
  show "\<forall>v s'. f s = (Inr v, s') \<longrightarrow> retry N C f s = (Inr v, s')"
    by (simp add: retry_def retry_loop_success)
qed

lemma flaky_outcomes:
  "flaky 0 = (Inl (IIBError ''not yet''), 1)"
  "flaky 1 = (Inl (IIBError ''not yet''), 2)"
  "flaky 2 = (Inr 2, 3)"
  by (simp_all add: flaky_def)

lemma retry_flaky: "retry 3 is_IIBError flaky 0 = (Inr 2, 3)"
proof -
  have "retry_loop is_IIBError flaky 3 0 = retry_loop is_IIBError flaky 2 1"
    using retry_loop_again [of flaky 0 "IIBError ''not yet''" 1 is_IIBError 3] flaky_outcomes
    by simp
  also have "\<dots> = retry_loop is_IIBError flaky 1 2"
    using retry_loop_again [of flaky 1 "IIBError ''not yet''" 2 is_IIBError 2] flaky_outcomes
    by simp
  also have "\<dots> = (Inr 2, 3)"
    using retry_loop_success [of flaky 2 2 3 is_IIBError 1] flaky_outcomes by simp
  finally show ?thesis by (simp add: retry_def)
qed

lemma retry_flaky_exhausted: "retry 2 is_IIBError flaky 0 = (Inl (IIBError ''not yet''), 2)"
proof -
  have "retry_loop is_IIBError flaky 2 0 = retry_loop is_IIBError flaky 1 1"
    using retry_loop_again [of flaky 0 "IIBError ''not yet''" 1 is_IIBError 2] flaky_outcomes
    by simp
  also have "\<dots> = (Inl (IIBError ''not yet''), 2)"
    using retry_loop_last [of flaky 1 "IIBError ''not yet''" 2 is_IIBError 1] flaky_outcomes
    by simp
  finally show ?thesis by (simp add: retry_def)
qed

lemma retry_flaky_other:
  "retry 3 (\<lambda>e. e = ValueError) flaky 0 = (Inl (IIBError ''not yet''), 1)"
  using retry_loop_other [of flaky 0 "IIBError ''not yet''" 1 "\<lambda>e. e = ValueError" 3]
    flaky_outcomes
  by (simp add: retry_def)

theorem retry_attempts_witness:
  "(1::int) \<le> 3
   \<and> (\<exists>k < nat 3. retry 3 is_IIBError flaky 0 = invocation flaky 0 k
         \<and> (\<forall>j<k. \<exists>e. fst (invocation flaky 0 j) = Inl e \<and> is_IIBError e)
         \<and> ((\<exists>e. fst (invocation flaky 0 k) = Inl e \<and> is_IIBError e) \<longrightarrow> Suc k = nat 3))
   \<and> fst (snd (retry 3 is_IIBError (counted flaky) (0, 0))) \<le> nat 3"
  using retry_attempts [of 3 is_IIBError flaky 0] by simp

section \<open>Properties of image resolution\<close>




lemma image_name_examples:
  "get_container_image_name ''registry.example:5000/ns/image:v1'' = ''registry.example:5000/ns/image''"
  "get_container_image_name ''registry.example:5000/ns/image@sha256:0123'' = ''registry.example:5000/ns/image''"
  "get_container_image_name ''image'' = ''image''"
  by (simp_all add: get_container_image_name_def)

lemma get_resolved_image_v2:
  assumes "skopeo_inspect env [''docker://'' @ pull_spec, ''--raw''] False False s
             = (Inr (PyStr B), s')"
    and "json_loads env B = Inr manifest"
    and "py_get manifest ''schemaVersion'' PyNone = Inr schema_version"
    and "py_eq_int schema_version 2"
  shows "get_resolved_image env pull_spec s
           = (Inr (get_container_image_name pull_spec @ ''@sha256:'' @ sha256_hexdigest env B), s')"
  using assms
  by (simp add: get_resolved_image_def and_then_Inr and_then_lift and_then_ret ret_def
        py_str_def)

lemma get_resolved_image_at:
  assumes "get_resolved_image env pull_spec s = (Inr r, t)"
  shows "\<exists>digest. r = get_container_image_name pull_spec @ ''@'' @ digest"
  using assms unfolding get_resolved_image_def Let_def
  by (auto simp: ret_def dest!: and_then_result)

lemma sample_inspect_text:
  "skopeo_inspect sample_env [''docker://registry.example/ns/image:v1'', ''--raw''] False False s
     = (Inr (PyStr ''manifest v2''), s\<lparr>world := Suc (world s)\<rparr>)"
  unfolding skopeo_inspect_def retry_def
  by (rule retry_loop_success)
     (simp add: sample_env_def skopeo_inspect_body_def run_cmd_def subprocess_run_def
        decode_output_def and_then_def sample_run_def ret_def lift_def setdefault_def
        startswith_def Let_def)

lemma sample_inspect_text_digest:
  "skopeo_inspect sample_env [''docker://registry.example/ns/image@sha256:0123'', ''--raw'']
     False False s
     = (Inr (PyStr ''manifest v2''), s\<lparr>world := Suc (world s)\<rparr>)"
  unfolding skopeo_inspect_def retry_def
  by (rule retry_loop_success)
     (simp add: sample_env_def skopeo_inspect_body_def run_cmd_def subprocess_run_def
        decode_output_def and_then_def sample_run_def ret_def lift_def setdefault_def
        startswith_def Let_def)

lemma sample_inspect_crlf:
  "skopeo_inspect sample_env [''docker://registry.example/ns/crlf:v1'', ''--raw''] False False s
     = (Inr (PyStr (''{\"schemaVersion\": 2}'' @ [CHR 0x0A])), s\<lparr>world := Suc (world s)\<rparr>)"
  unfolding skopeo_inspect_def retry_def
  by (rule retry_loop_success)
     (simp add: sample_env_def skopeo_inspect_body_def run_cmd_def subprocess_run_def
        decode_output_def and_then_def sample_run_def ret_def lift_def setdefault_def
        startswith_def Let_def)

lemma skopeo_inspect_body_text:
  assumes "child_process env
             ([''skopeo'', ''--command-timeout'', iib_skopeo_timeout env, ''inspect''] @ args)
             [(''universal_newlines'', PyBool True), (''encoding'', PyStr ''utf-8''),
              (''stderr'', PyInt (- 1)), (''stdout'', PyInt (- 1))] s
             = (Inr \<lparr>returncode = 0, stdout = B, stderr = E\<rparr>, s')"
    and "utf8_valid (map of_char B)" and "utf8_valid (map of_char E)"
  shows "skopeo_inspect_body env
           \<lparr>call_args = args, return_json = False, require_media_type = rmt\<rparr> s
           = (Inr (PyStr (translate_newlines B)), s')"
  using assms
  by (simp add: skopeo_inspect_body_def run_cmd_def subprocess_run_def decode_output_def
        and_then_def ret_def lift_def setdefault_def Let_def)

text \<open>
  C4. The resolved image is meant to carry the SHA-256 digest of the bytes that the raw
  inspection prints. \<^verbatim>\<open>run_cmd\<close> has these bytes decoded with universal newlines, and
  \<^verbatim>\<open>get_resolved_image\<close> hashes the text: for the bytes
  \<^verbatim>\<open>{"schemaVersion": 2}\<close> followed by a carriage return and a line feed, the digest in
  the result is the one of the text that ends with the line feed alone, not the one of
  the bytes.
\<close>

theorem get_resolved_image_hashes_translated_text:
  "fst (child_process sample_env
          [''skopeo'', ''--command-timeout'', ''300s'', ''inspect'',
           ''docker://registry.example/ns/crlf:v1'', ''--raw'']
          [(''universal_newlines'', PyBool True), (''encoding'', PyStr ''utf-8''),
           (''stderr'', PyInt (- 1)), (''stdout'', PyInt (- 1))] sample_state)
     = Inr \<lparr>returncode = 0, stdout = ''{\"schemaVersion\": 2}'' @ [CHR 0x0D, CHR 0x0A],
            stderr = []\<rparr>
   \<and> sha256_hexdigest sample_env (''{\"schemaVersion\": 2}'' @ [CHR 0x0D, CHR 0x0A])
       = ''1fb7896781b4864e5469eb92590e478b9fb8c2f2c2d58fe5d7207e176f9d8cd7''
   \<and> get_resolved_image sample_env ''registry.example/ns/crlf:v1'' sample_state
       = (Inr (''registry.example/ns/crlf@sha256:''
               @ ''7a6a05b89219688e59f0c324927f4696e9e4a1176eb1dc82c6b76a06d9315cf3''),
          sample_state\<lparr>world := 1\<rparr>)"
proof -
  have run: "fst (child_process sample_env
          [''skopeo'', ''--command-timeout'', ''300s'', ''inspect'',
           ''docker://registry.example/ns/crlf:v1'', ''--raw'']
          [(''universal_newlines'', PyBool True), (''encoding'', PyStr ''utf-8''),
           (''stderr'', PyInt (- 1)), (''stdout'', PyInt (- 1))] sample_state)
     = Inr \<lparr>returncode = 0, stdout = ''{\"schemaVersion\": 2}'' @ [CHR 0x0D, CHR 0x0A],
            stderr = []\<rparr>"
    by (simp add: sample_env_def sample_run_def startswith_def)
  have bytes: "sha256_hexdigest sample_env (''{\"schemaVersion\": 2}'' @ [CHR 0x0D, CHR 0x0A])
       = ''1fb7896781b4864e5469eb92590e478b9fb8c2f2c2d58fe5d7207e176f9d8cd7''"
    by (simp add: sample_env_def sample_sha256_def)
  have lf: "sha256_hexdigest sample_env (''{\"schemaVersion\": 2}'' @ [CHR 0x0A])
       = ''7a6a05b89219688e59f0c324927f4696e9e4a1176eb1dc82c6b76a06d9315cf3''"
    by (simp add: sample_env_def sample_sha256_def)
  have loads: "json_loads sample_env (''{\"schemaVersion\": 2}'' @ [CHR 0x0A])
       = Inr (PyDict [(''schemaVersion'', PyInt 2)])"
    by (simp add: sample_env_def sample_loads_def)
  have "get_resolved_image sample_env ''registry.example/ns/crlf:v1'' sample_state
       = (Inr (get_container_image_name ''registry.example/ns/crlf:v1'' @ ''@sha256:''
               @ sha256_hexdigest sample_env (''{\"schemaVersion\": 2}'' @ [CHR 0x0A])),
          sample_state\<lparr>world := Suc (world sample_state)\<rparr>)"
    using sample_inspect_crlf [of sample_state] loads
    by (intro get_resolved_image_v2 [where manifest = "PyDict [(''schemaVersion'', PyInt 2)]"
          and schema_version = "PyInt 2"]) simp_all
  with run bytes lf show ?thesis
    by (simp add: get_container_image_name_def sample_state_def)
qed

section \<open>Properties of bundle resolution\<close>

lemma resolve_bundle_at:
  assumes "resolve_bundle env pull_spec s = (Inr r, t)"
  shows "CHR ''@'' \<in> set r"
  using assms unfolding resolve_bundle_def
  by (auto simp: ret_def raise_def dest!: and_then_result get_resolved_image_at split: if_splits)

lemma resolve_bundles_loop_at:
  "resolve_bundles_loop env bundles acc s = (Inr R, t) \<Longrightarrow>
   \<forall>r \<in> acc. CHR ''@'' \<in> set r \<Longrightarrow> \<forall>r \<in> R. CHR ''@'' \<in> set r"
proof (induction bundles arbitrary: acc s)
  case Nil
  then show ?case by simp
next
  case (Cons b bs)
  obtain x s1 where b: "resolve_bundle env b s = (x, s1)" by (cases "resolve_bundle env b s")
  show ?case
  proof (cases x)
    case (Inl e)
    with b Cons.prems show ?thesis by simp
  next
    case (Inr r)
    with b have "CHR ''@'' \<in> set r" by (auto dest: resolve_bundle_at)
    with Cons.prems(2) have "\<forall>r \<in> insert r acc. CHR ''@'' \<in> set r" by simp
    moreover from b Inr Cons.prems(1)
    have "resolve_bundles_loop env bs (insert r acc) s1 = (Inr R, t)" by simp
    ultimately show ?thesis by (rule Cons.IH [rotated])
  qed
qed

lemma get_resolved_bundles_single:
  "get_resolved_bundles env [pull_spec] s =
     (case resolve_bundle env pull_spec s of
        (Inl e, t) \<Rightarrow> (Inl e, t) | (Inr r, t) \<Rightarrow> (Inr {r}, t))"
  by (simp add: get_resolved_bundles_def split: prod.splits sum.splits)


lemma resolve_bundle_v2:
  assumes "skopeo_inspect env [''docker://'' @ pull_spec, ''--raw''] True True s
             = (Inr skopeo_raw, s')"
    and "py_get skopeo_raw ''mediaType'' PyNone = Inr (PyStr manifest_v2_type)"
    and "py_get skopeo_raw ''schemaVersion'' PyNone = Inr schema_version"
    and "py_eq_int schema_version 2"
  shows "resolve_bundle env pull_spec s = get_resolved_image env pull_spec s'"
  using assms
  by (simp add: resolve_bundle_def and_then_Inr and_then_lift manifest_list_type_def
        manifest_v2_type_def)






lemma sample_inspect_json:
  "skopeo_inspect sample_env [''docker://registry.example/ns/bundle:v1'', ''--raw''] True True s
     = (Inr sample_manifest_list, s\<lparr>world := Suc (world s)\<rparr>)"
  "skopeo_inspect sample_env [''docker://registry.example/ns/image:v1'', ''--raw''] True True s
     = (Inr sample_manifest_v2, s\<lparr>world := Suc (world s)\<rparr>)"
  "skopeo_inspect sample_env [''docker://registry.example/ns/image@sha256:0123'', ''--raw'']
     True True s
     = (Inr sample_manifest_v2, s\<lparr>world := Suc (world s)\<rparr>)"
  "skopeo_inspect sample_env [''docker://registry.example/ns/other:v1'', ''--raw''] True True s
     = (Inr sample_manifest_oci, s\<lparr>world := Suc (world s)\<rparr>)"
  unfolding skopeo_inspect_def retry_def
  by (rule retry_loop_success,
      simp add: sample_env_def skopeo_inspect_body_def run_cmd_def subprocess_run_def
        decode_output_def and_then_def sample_run_def
        ret_def lift_def raise_def setdefault_def startswith_def Let_def sample_loads_def
        sample_manifest_list_def sample_manifest_v2_def sample_manifest_oci_def
        manifest_list_type_def manifest_v2_type_def)+

lemma sample_resolved_image:
  "get_resolved_image sample_env ''registry.example/ns/image:v1'' s
     = (Inr ''registry.example/ns/image@sha256:0123'', s\<lparr>world := Suc (world s)\<rparr>)"
  "get_resolved_image sample_env ''registry.example/ns/image@sha256:0123'' s
     = (Inr ''registry.example/ns/image@sha256:0123'', s\<lparr>world := Suc (world s)\<rparr>)"
  using get_resolved_image_v2 [of sample_env "''registry.example/ns/image:v1''" s
      "''manifest v2''" "s\<lparr>world := Suc (world s)\<rparr>" sample_manifest_v2 "PyInt 2"]
    get_resolved_image_v2 [of sample_env "''registry.example/ns/image@sha256:0123''" s
      "''manifest v2''" "s\<lparr>world := Suc (world s)\<rparr>" sample_manifest_v2 "PyInt 2"]
    sample_inspect_text [of s] sample_inspect_text_digest [of s]
  by (simp_all add: sample_env_def sample_loads_def sample_manifest_v2_def
        sample_sha256_def get_container_image_name_def)


section \<open>Properties of the deprecation list\<close>

lemma get_resolved_bundles_at:
  "get_resolved_bundles env bundles s = (Inr R, t) \<Longrightarrow> \<forall>r \<in> R. CHR ''@'' \<in> set r"
  unfolding get_resolved_bundles_def by (erule resolve_bundles_loop_at) simp

lemma get_bundles_from_deprecation_list_filter:
  "get_bundles_from_deprecation_list env bundles deprecation_list s =
     (case get_resolved_bundles env deprecation_list s of
        (Inl e, s') \<Rightarrow> (Inl e, s')
      | (Inr resolved, s') \<Rightarrow> (Inr (filter (\<lambda>bundle. bundle \<in> resolved) bundles), s'))"
  by (simp add: get_bundles_from_deprecation_list_def and_then_def ret_def
        split: prod.splits sum.splits)

text \<open>
  C3. The bundles to deprecate are the given bundles, in their order, whose pull
  specification as given is an element of the resolved deprecation list. Every
  resolved pull specification contains \<^verbatim>\<open>@\<close>, so a bundle given by a tag is never among
  them, whatever it resolves to.
\<close>

theorem get_bundles_from_deprecation_list_raw:
  "get_bundles_from_deprecation_list env bundles deprecation_list s =
     (case get_resolved_bundles env deprecation_list s of
        (Inl e, s') \<Rightarrow> (Inl e, s')
      | (Inr resolved, s') \<Rightarrow> (Inr (filter (\<lambda>bundle. bundle \<in> resolved) bundles), s'))
   \<and> (\<forall>deprecated s'.
         get_bundles_from_deprecation_list env bundles deprecation_list s = (Inr deprecated, s')
         \<longrightarrow> (\<forall>bundle \<in> set bundles. CHR ''@'' \<notin> set bundle \<longrightarrow> bundle \<notin> set deprecated))"
proof (intro conjI allI impI ballI)
  show "get_bundles_from_deprecation_list env bundles deprecation_list s =
     (case get_resolved_bundles env deprecation_list s of
        (Inl e, s') \<Rightarrow> (Inl e, s')
      | (Inr resolved, s') \<Rightarrow> (Inr (filter (\<lambda>bundle. bundle \<in> resolved) bundles), s'))"
    by (rule get_bundles_from_deprecation_list_filter)
next
  fix deprecated s' b
  assume res: "get_bundles_from_deprecation_list env bundles deprecation_list s
                 = (Inr deprecated, s')"
    and tag: "CHR ''@'' \<notin> set b"
  obtain x t where g: "get_resolved_bundles env deprecation_list s = (x, t)"
    by (cases "get_resolved_bundles env deprecation_list s")
  with res obtain R where R: "x = Inr R" "deprecated = filter (\<lambda>bundle. bundle \<in> R) bundles"
    by (cases x) (auto simp: get_bundles_from_deprecation_list_filter)
  from g R(1) have "\<forall>r \<in> R. CHR ''@'' \<in> set r"
    by (auto dest: get_resolved_bundles_at)
  with tag have "b \<notin> R" by blast
  with R(2) show "b \<notin> set deprecated" by simp
qed

lemma sample_resolved_deprecation_list:
  "get_resolved_bundles sample_env [''registry.example/ns/image@sha256:0123''] sample_state
     = (Inr {''registry.example/ns/image@sha256:0123''}, sample_state\<lparr>world := 2\<rparr>)"
  using resolve_bundle_v2 [of sample_env "''registry.example/ns/image@sha256:0123''"
      sample_state sample_manifest_v2 "sample_state\<lparr>world := 1\<rparr>" "PyInt 2"]
    sample_inspect_json(3) [of sample_state]
    sample_resolved_image(2) [of "sample_state\<lparr>world := 1\<rparr>"]
  by (simp add: get_resolved_bundles_single sample_manifest_v2_def sample_state_def)

theorem get_bundles_from_deprecation_list_raw_witness:
  "get_bundles_from_deprecation_list sample_env
     [''registry.example/ns/image:v1'', ''registry.example/ns/image@sha256:0123'']
     [''registry.example/ns/image@sha256:0123''] sample_state
     = (Inr [''registry.example/ns/image@sha256:0123''], sample_state\<lparr>world := 2\<rparr>)
   \<and> fst (get_resolved_image sample_env ''registry.example/ns/image:v1'' sample_state)
       = Inr ''registry.example/ns/image@sha256:0123''
   \<and> CHR ''@'' \<notin> set ''registry.example/ns/image:v1''"
  using get_bundles_from_deprecation_list_raw [of sample_env
      "[''registry.example/ns/image:v1'', ''registry.example/ns/image@sha256:0123'']"
      "[''registry.example/ns/image@sha256:0123'']" sample_state]
    sample_resolved_deprecation_list sample_resolved_image(1) [of sample_state]
  by simp

section \<open>Properties of the index image information\<close>

text \<open>
  C7. When \<^verbatim>\<open>from_index\<close> is absent (\<^verbatim>\<open>None\<close> or the empty string) and no default
  version is passed, \<^verbatim>\<open>get_index_image_info\<close> returns the version 'v4.5', the scope
  'prod', no resolved pull specification and no architectures, and leaves the state as
  it was: no child process has run and no file has changed. A default version that is
  passed is returned in place of 'v4.5'.
\<close>

theorem get_index_image_info_absent:
  assumes "from_index = None \<or> from_index = Some []"
  shows "get_index_image_info env overwrite_from_index_token from_index None s
           = (Inr \<lparr>resolved_from_index = None, ocp_version = PyStr ''v4.5'', arches = {},
                   resolved_distribution_scope = PyStr ''prod''\<rparr>, s)
       \<and> get_index_image_info env overwrite_from_index_token from_index (Some version) s
           = (Inr \<lparr>resolved_from_index = None, ocp_version = PyStr version, arches = {},
                   resolved_distribution_scope = PyStr ''prod''\<rparr>, s)"
  using assms by (auto simp: get_index_image_info_def ret_def)

theorem get_index_image_info_absent_witness:
  "get_index_image_info sample_env (Some ''user:password'') None None sample_state
     = (Inr \<lparr>resolved_from_index = None, ocp_version = PyStr ''v4.5'', arches = {},
             resolved_distribution_scope = PyStr ''prod''\<rparr>, sample_state)
   \<and> get_index_image_info sample_env (Some ''user:password'') (Some []) None sample_state
     = (Inr \<lparr>resolved_from_index = None, ocp_version = PyStr ''v4.5'', arches = {},
             resolved_distribution_scope = PyStr ''prod''\<rparr>, sample_state)"
  using get_index_image_info_absent [of None sample_env "Some ''user:password''" sample_state]
    get_index_image_info_absent [of "Some []" sample_env "Some ''user:password''" sample_state]
  by simp

section \<open>Properties of the architecture check\<close>

lemma join_sorted_strings:
  assumes "finite A" and "\<forall>v \<in> A. is_str v"
  shows "\<exists>listed. join_sorted A = Inr (join '', '' listed)
           \<and> sorted listed \<and> distinct listed \<and> set listed = the_str ` A"
  using assms
  by (intro exI [of _ "sorted_list_of_set (the_str ` A)"]) (simp add: join_sorted_def)

text \<open>
  C6. For a finite set of requested architectures, all of them strings, the check
  against the architectures of the binary image fails exactly when the difference of
  the two sets is not empty; the failure is an \<^verbatim>\<open>IIBError\<close> whose message lists the
  elements of the difference, each once, in ascending order, separated by a comma and a
  space.
\<close>

theorem check_binary_image_arches_difference:
  assumes "finite request_arches" and "\<forall>v \<in> request_arches. is_str v"
  shows "((\<exists>e. check_binary_image_arches request_arches binary_image_arches = Inl e)
            \<longleftrightarrow> request_arches - binary_image_arches \<noteq> {})
       \<and> (request_arches - binary_image_arches \<noteq> {} \<longrightarrow>
            (\<exists>listed.
               check_binary_image_arches request_arches binary_image_arches
                 = Inl (IIBError
                     (''The binary image is not available for the following arches: ''
                      @ join '', '' listed))
               \<and> sorted listed \<and> distinct listed
               \<and> set listed = the_str ` (request_arches - binary_image_arches)))
       \<and> (request_arches - binary_image_arches = {} \<longrightarrow>
            check_binary_image_arches request_arches binary_image_arches = Inr ())"
proof -
  have fin: "finite (request_arches - binary_image_arches)"
    using assms(1) by simp
  have strs: "\<forall>v \<in> request_arches - binary_image_arches. is_str v"
    using assms(2) by simp
  from join_sorted_strings [OF fin strs]
  obtain listed where listed:
    "join_sorted (request_arches - binary_image_arches) = Inr (join '', '' listed)"
    "sorted listed" "distinct listed"
    "set listed = the_str ` (request_arches - binary_image_arches)"
    by blast
  have sub: "request_arches \<subseteq> binary_image_arches
               \<longleftrightarrow> request_arches - binary_image_arches = {}"
    by blast
  show ?thesis
  proof (cases "request_arches - binary_image_arches = {}")
    case True
    with sub show ?thesis by (simp add: check_binary_image_arches_def)
  next
    case False
    with sub have "check_binary_image_arches request_arches binary_image_arches
        = Inl (IIBError (''The binary image is not available for the following arches: ''
                 @ join '', '' listed))"
      using listed(1) by (simp add: check_binary_image_arches_def)
    with False listed show ?thesis by auto
  qed
qed

lemma check_binary_image_arches_examples:
  "check_binary_image_arches {PyStr ''amd64'', PyStr ''s390x''} {PyStr ''amd64''}
     = Inl (IIBError ''The binary image is not available for the following arches: s390x'')"
  "check_binary_image_arches {PyStr ''s390x'', PyStr ''amd64'', PyStr ''ppc64le''} {}
     = Inl (IIBError
         ''The binary image is not available for the following arches: amd64, ppc64le, s390x'')"
  "check_binary_image_arches {PyStr ''amd64''} {PyStr ''amd64'', PyStr ''s390x''} = Inr ()"
  by code_simp+

theorem check_binary_image_arches_difference_witness:
  "finite {PyStr ''amd64'', PyStr ''s390x''}
   \<and> is_str (PyStr ''amd64'') \<and> is_str (PyStr ''s390x'')
   \<and> {PyStr ''amd64'', PyStr ''s390x''} - {PyStr ''amd64''} \<noteq> {}
   \<and> (\<exists>listed.
         check_binary_image_arches {PyStr ''amd64'', PyStr ''s390x''} {PyStr ''amd64''}
           = Inl (IIBError (''The binary image is not available for the following arches: ''
                            @ join '', '' listed))
         \<and> sorted listed \<and> distinct listed
         \<and> set listed = the_str ` ({PyStr ''amd64'', PyStr ''s390x''} - {PyStr ''amd64''}))"
  using check_binary_image_arches_difference
    [of "{PyStr ''amd64'', PyStr ''s390x''}" "{PyStr ''amd64''}"]
  by simp

section \<open>Properties of the registry credentials\<close>






























end
